theory Spec2Isabelle
  imports Complex_Main "HOL-Library.Monad_Syntax" "HOL-Library.Sublist"
begin

section \<open>Data model (core/base.py)\<close>

text \<open>
  The dataclasses of \<^verbatim>\<open>core/base.py\<close>.  \<^verbatim>\<open>RTRSession.created_at\<close> and
  \<^verbatim>\<open>RTRSession.raw_response\<close> are never read by the modelled functions and are left out.
\<close>

record HostInfo =
  hostname :: string
  aid :: string
  cid :: string
  os_name :: string
  os_version :: string
  cpu_name :: string
  platform :: string

datatype Platform = WINDOWS | MAC | LINUX

record RTRSession =
  session_id :: string
  device_id :: string
  status_code :: int


section \<open>Python strings and paths\<close>

text \<open>
  \<^verbatim>\<open>str.split\<close>, \<^verbatim>\<open>str.join\<close>, \<^verbatim>\<open>str.replace\<close> (all occurrences, left to right, for
  a non-empty pattern) and \<^verbatim>\<open>str.rfind\<close>; \<^verbatim>\<open>s.endswith(t)\<close> is \<open>suffix t s\<close>.
  \<open>PurePath\<close> is \<^verbatim>\<open>pathlib\<close>'s POSIX flavour: \<open>anchored\<close> says that the path starts at
  the root and \<open>parts\<close> lists its components, with empty and \<^verbatim>\<open>.\<close> components dropped
  (a leading \<^verbatim>\<open>//\<close> is read as \<^verbatim>\<open>/\<close>).  \<open>path_suffix\<close> and \<open>with_suffix\<close> are
  \<^verbatim>\<open>PurePath.suffix\<close> and \<^verbatim>\<open>PurePath.with_suffix\<close>; the latter raises \<^verbatim>\<open>ValueError\<close>
  on an empty name (\<open>None\<close>).
\<close>

fun split_on :: "char \<Rightarrow> string \<Rightarrow> string list" where
  "split_on c [] = [[]]"
| "split_on c (x # xs) =
     (if x = c then [] # split_on c xs
      else (case split_on c xs of w # ws \<Rightarrow> (x # w) # ws | [] \<Rightarrow> [[x]]))"












section \<open>The environment: external calls and their answers\<close>

text \<open>
  Everything the engine does to the outside world is a \<open>call\<close>; the outside world answers
  with a \<open>response\<close>.  The history lists the calls made so far with their answers, newest
  first.  An environment is any function from the history and the call to the answer, so a
  statement proved for every environment holds for every behaviour of the control plane, the
  endpoint, the clock and object storage.  \<open>RRaise\<close> is a raised Python exception and
  \<open>RNone\<close> is Python's \<^verbatim>\<open>None\<close>.
\<close>

datatype call =
    TimeTime                   \<comment> \<open>\<^verbatim>\<open>time.time()\<close>\<close>
  | Sleep rat                  \<comment> \<open>\<^verbatim>\<open>time.sleep(d)\<close>\<close>
  | Call string "string list"  \<comment> \<open>any other external call: the name of the function called and
                                  the arguments that identify the call\<close>

definition py_bool :: "bool \<Rightarrow> string" where
  "py_bool b = (if b then ''True'' else ''False'')"

text \<open>
  The dictionaries the control-plane client returns.  A resource is a dictionary read with
  \<^verbatim>\<open>.get\<close> (a missing text is empty, a missing flag is false) or by subscript (a missing
  key raises \<^verbatim>\<open>KeyError\<close>: \<open>None\<close> here).  \<open>resp_resources\<close> is \<open>None\<close> when
  \<^verbatim>\<open>resp["body"]["resources"]\<close> raises \<^verbatim>\<open>KeyError\<close>.
\<close>

record api_resource =
  res_session_id :: "string option"
  res_cloud_request_id :: "string option"
  res_complete :: bool
  res_stdout :: string
  res_stderr :: string
  res_sha256 :: "string option"

record api_response =
  resp_status_code :: "int option"
  resp_resources :: "api_resource list option"

datatype response =
    RNone
  | RRaise
  | RNum rat
  | RBool bool
  | RHead int                               \<comment> \<open>a \<^verbatim>\<open>head_object\<close> response, with its \<^verbatim>\<open>ContentLength\<close>\<close>
  | RClientError string                     \<comment> \<open>\<^verbatim>\<open>botocore.exceptions.ClientError\<close>, with its error code\<close>
  | RResponse api_response                  \<comment> \<open>a non-empty response dictionary\<close>
  | RBytes string                           \<comment> \<open>a \<^verbatim>\<open>bytes\<close> object\<close>
  | RInt int
  | RStr string
  | RHost HostInfo

type_synonym history = "(call \<times> response) list"
type_synonym env = "history \<Rightarrow> call \<Rightarrow> response"

definition perform :: "env \<Rightarrow> call \<Rightarrow> history \<Rightarrow> response \<times> history" where
  "perform E c h = (let r = E h c in (r, (c, r) # h))"



definition sleep :: "env \<Rightarrow> rat \<Rightarrow> history \<Rightarrow> history" where
  "sleep E d h = snd (perform E (Sleep d) h)"







definition pulse_session :: "env \<Rightarrow> RTRSession \<Rightarrow> history \<Rightarrow> bool \<times> history" where
  "pulse_session E session h =
     (case perform E (Call ''session_manager.pulse_session'' [session_id session]) h of (RBool b, h') \<Rightarrow> (b, h') | (r, h') \<Rightarrow> (False, h'))"

section \<open>File manager (managers/managers.py)\<close>














text \<open>Counting calls in a history, and environments for concrete runs.\<close>

definition is_get :: "call \<times> response \<Rightarrow> bool" where [simp]:
  "is_get e = (case fst e of
                 Call name args \<Rightarrow> name = ''rtr_client.execute_active_responder_command''
               | c \<Rightarrow> False)"

definition count_gets :: "history \<Rightarrow> nat" where
  "count_gets h = length (filter is_get h)"





definition is_pulse :: "call \<times> response \<Rightarrow> bool" where [simp]:
  "is_pulse e = (case fst e of
                   Call name args \<Rightarrow> name = ''session_manager.pulse_session''
                 | c \<Rightarrow> False)"

definition count_pulses :: "history \<Rightarrow> nat" where
  "count_pulses h = length (filter is_pulse h)"

section \<open>Local paths of the evacuation downloads (collectors)\<close>





section \<open>Configuration (core/configuration.py)\<close>



section \<open>Session manager (managers/managers.py)\<close>





section \<open>Object storage (utils/cloud_storage.py)\<close>

datatype head_result = HeadFound int | HeadClientError string | HeadOtherError

definition s3_client :: "env \<Rightarrow> history \<Rightarrow> bool \<times> history" where
  \<comment> \<open>Lines 146-159: building the client; \<open>False\<close> when that raises.\<close>
  "s3_client E h = (case perform E (Call ''boto3.client'' []) h of (r, h') \<Rightarrow> (r \<noteq> RRaise, h'))"

definition head_object :: "env \<Rightarrow> string \<Rightarrow> string \<Rightarrow> history \<Rightarrow> head_result \<times> history" where
  "head_object E bucket object_key h =
     (case perform E (Call ''s3.head_object'' [bucket, object_key]) h of (r, h') \<Rightarrow>
        (case r of RHead n \<Rightarrow> (HeadFound n, h')
                 | RClientError code \<Rightarrow> (HeadClientError code, h')
                 | _ \<Rightarrow> (HeadOtherError, h')))"

definition verify_s3_upload ::
  "env \<Rightarrow> string \<Rightarrow> string \<Rightarrow> int option \<Rightarrow> history \<Rightarrow> bool \<times> history" where
  \<comment> \<open>\<^verbatim>\<open>CloudStorageManager.verify_s3_upload\<close>, lines 133-198.\<close>
  "verify_s3_upload E bucket object_key expected_size h =
     (case s3_client E h of
        (False, h1) \<Rightarrow> (False, h1)
      | (True, h1) \<Rightarrow>
         (case head_object E bucket object_key h1 of
            (HeadFound actual_size, h2) \<Rightarrow>
              (case expected_size of
                 Some expected \<Rightarrow>
                   if actual_size = expected then (True, h2) else (False, h2)
               | None \<Rightarrow> (True, h2))
          | (HeadClientError error_code, h2) \<Rightarrow>
              (if error_code = ''404'' then (False, h2) else (False, h2))
          | (HeadOtherError, h2) \<Rightarrow> (False, h2)))"

definition get_s3_object_info ::
  "env \<Rightarrow> string \<Rightarrow> string \<Rightarrow> history \<Rightarrow> int option \<times> history" where
  \<comment> \<open>\<^verbatim>\<open>CloudStorageManager.get_s3_object_info\<close>, lines 200-249; of the returned
      dictionary only the size is kept.\<close>
  "get_s3_object_info E bucket object_key h =
     (case s3_client E h of
        (False, h1) \<Rightarrow> (None, h1)
      | (True, h1) \<Rightarrow>
         (case head_object E bucket object_key h1 of
            (HeadFound actual_size, h2) \<Rightarrow> (Some actual_size, h2)
          | (HeadClientError error_code, h2) \<Rightarrow> (None, h2)
          | (HeadOtherError, h2) \<Rightarrow> (None, h2)))"

definition spec_size_matches :: "int \<Rightarrow> int \<Rightarrow> bool" where
  \<comment> \<open>The tolerance in the words of the specification: max(1 KiB, 1 %) of the expected size.\<close>
  "spec_size_matches expected actual \<longleftrightarrow>
     \<bar>of_int actual - of_int expected\<bar> \<le> max (1024 :: rat) (of_int expected / 100)"

definition env_near_size :: env where
  \<comment> \<open>Object storage holding an object one byte larger than expected.\<close>
  "env_near_size h c =
     (case c of
        Call name args \<Rightarrow> if name = ''s3.head_object'' then RHead 1000001 else RNone
      | c' \<Rightarrow> RNone)"

section \<open>Batch orchestrator (orchestrator_optimized.py)\<close>

text \<open>
  The result dictionary is a map from hostnames to booleans; \<open>hosts_by_cid\<close> keeps the
  insertion order of the Python dictionary.  Where the source raises out of the function,
  the result is \<open>None\<close>.  The worker pools are run one task after the other, in submission
  order.
\<close>

definition py_lower :: "string \<Rightarrow> string" where
  "py_lower s = map (\<lambda>c. if 65 \<le> (of_char c :: nat) \<and> (of_char c :: nat) \<le> 90
                          then char_of ((of_char c :: nat) + 32) else c) s"

definition Platform_of :: "string \<Rightarrow> Platform option" where
  \<comment> \<open>\<^verbatim>\<open>Platform(value)\<close>; \<open>None\<close> where it raises \<^verbatim>\<open>ValueError\<close>.\<close>
  "Platform_of v = (if v = ''windows'' then Some WINDOWS
                    else if v = ''mac'' then Some MAC
                    else if v = ''linux'' then Some LINUX else None)"

definition get_host_by_hostname :: "env \<Rightarrow> string \<Rightarrow> history \<Rightarrow> HostInfo option \<times> history" where
  "get_host_by_hostname E host h =
     (case perform E (Call ''host_manager.get_host_by_hostname'' [host]) h of
        (RHost host_info, h') \<Rightarrow> (Some host_info, h')
      | (r, h') \<Rightarrow> (None, h'))"

fun get_host_details_batch ::
  "env \<Rightarrow> string list \<Rightarrow> (string \<rightharpoonup> HostInfo) \<Rightarrow> history \<Rightarrow> (string \<rightharpoonup> HostInfo) \<times> history" where
  \<comment> \<open>\<^verbatim>\<open>_get_host_details_batch\<close>, lines 599-610.\<close>
  "get_host_details_batch E [] result h = (result, h)"
| "get_host_details_batch E (host # hostnames) result h =
     (case get_host_by_hostname E host h of
        (Some host_info, h1) \<Rightarrow> get_host_details_batch E hostnames (result(host \<mapsto> host_info)) h1
      | (None, h1) \<Rightarrow> get_host_details_batch E hostnames result h1)"

type_synonym cid_hosts = "(string \<times> string \<times> HostInfo) list"

fun add_host ::
  "string \<Rightarrow> string \<times> string \<times> HostInfo \<Rightarrow> (string \<times> cid_hosts) list \<Rightarrow> (string \<times> cid_hosts) list" where
  \<comment> \<open>\<^verbatim>\<open>if cid not in hosts_by_cid: hosts_by_cid[cid] = []\<close>, then
      \<^verbatim>\<open>hosts_by_cid[cid].append(entry)\<close>.\<close>
  "add_host c entry [] = [(c, [entry])]"
| "add_host c entry ((c', entries) # rest) =
     (if c' = c then (c', entries @ [entry]) # rest else (c', entries) # add_host c entry rest)"

definition all_failed :: "cid_hosts \<Rightarrow> (string \<rightharpoonup> bool)" where
  \<comment> \<open>\<^verbatim>\<open>for hostname, _, _ in hosts: results[hostname] = False\<close>\<close>
  "all_failed hosts = map_of (map (\<lambda>(host, target, host_info). (host, False)) hosts)"

fun kape_group_cached ::
  "(string \<rightharpoonup> HostInfo) \<Rightarrow> (string \<times> string) list \<Rightarrow> (string \<times> cid_hosts) list
     \<Rightarrow> (string \<times> cid_hosts) list" where
  \<comment> \<open>\<^verbatim>\<open>run_kape_batch\<close>, lines 172-181.\<close>
  "kape_group_cached host_details [] hosts_by_cid = hosts_by_cid"
| "kape_group_cached host_details ((host, kape_target) # targets) hosts_by_cid =
     (case host_details host of
        Some host_info \<Rightarrow>
          kape_group_cached host_details targets
            (add_host (cid host_info) (host, kape_target, host_info) hosts_by_cid)
      | None \<Rightarrow> kape_group_cached host_details targets hosts_by_cid)"

fun kape_group_lookup ::
  "env \<Rightarrow> (string \<times> string) list \<Rightarrow> (string \<times> cid_hosts) list \<Rightarrow> history
     \<Rightarrow> (string \<times> cid_hosts) list \<times> history" where
  \<comment> \<open>\<^verbatim>\<open>run_kape_batch\<close>, lines 184-193.\<close>
  "kape_group_lookup E [] hosts_by_cid h = (hosts_by_cid, h)"
| "kape_group_lookup E ((host, kape_target) # targets) hosts_by_cid h =
     (case get_host_by_hostname E host h of
        (Some host_info, h1) \<Rightarrow>
          kape_group_lookup E targets
            (add_host (cid host_info) (host, kape_target, host_info) hosts_by_cid) h1
      | (None, h1) \<Rightarrow> kape_group_lookup E targets hosts_by_cid h1)"

fun run_kape_on_batch ::
  "env \<Rightarrow> cid_hosts \<Rightarrow> bool \<Rightarrow> (string \<rightharpoonup> bool) \<Rightarrow> history \<Rightarrow> (string \<rightharpoonup> bool) \<times> history" where
  \<comment> \<open>\<^verbatim>\<open>_run_kape_on_batch\<close>, lines 390-416; the fourth argument is \<^verbatim>\<open>results\<close>.\<close>
  "run_kape_on_batch E [] upload_to_s3 results h = (results, h)"
| "run_kape_on_batch E ((host, kape_target, host_info) # hosts) upload_to_s3 results h =
     (case perform E (Call ''_process_single_kape'' [host, kape_target, aid host_info, py_bool upload_to_s3]) h of
        (RBool b, h1) \<Rightarrow> run_kape_on_batch E hosts upload_to_s3 (results(host \<mapsto> b)) h1
      | (r, h1) \<Rightarrow> run_kape_on_batch E hosts upload_to_s3 (results(host \<mapsto> False)) h1)"

function kape_batches ::
  "env \<Rightarrow> nat \<Rightarrow> string \<Rightarrow> cid_hosts \<Rightarrow> bool \<Rightarrow> (string \<rightharpoonup> bool) \<Rightarrow> history
     \<Rightarrow> (string \<rightharpoonup> bool) option \<times> history" where
  \<comment> \<open>The loop of lines 375-386 for a positive \<^verbatim>\<open>batch_size\<close>; the fourth argument is
      \<^verbatim>\<open>hosts[i:]\<close>.\<close>
  "kape_batches E batch_size batch_id hosts upload_to_s3 results h =
     (if hosts = [] \<or> batch_size = 0 then (Some results, h)
      else
        (case run_kape_on_batch E (take batch_size hosts) upload_to_s3 Map.empty h of
           (batch_results, h1) \<Rightarrow>
             if batch_size < length hosts then
               (case perform E (Call ''rtr_client.batch_refresh_sessions'' [batch_id]) h1 of
                  (RRaise, h2) \<Rightarrow> (None, h2)
                | (r, h2) \<Rightarrow>
                    kape_batches E batch_size batch_id (drop batch_size hosts) upload_to_s3
                      (results ++ batch_results) h2)
             else (Some (results ++ batch_results), h1)))"
  by pat_completeness auto
termination
  by (relation "measure (\<lambda>(E, batch_size, batch_id, hosts, upload_to_s3, results, h). length hosts)")
     auto

declare kape_batches.simps [simp del]

definition process_kape_batch_for_cid ::
  "env \<Rightarrow> int \<Rightarrow> string \<Rightarrow> cid_hosts \<Rightarrow> bool \<Rightarrow> history
     \<Rightarrow> (string \<rightharpoonup> bool) option \<times> history" where
  \<comment> \<open>\<^verbatim>\<open>_process_kape_batch_for_cid\<close>, lines 320-388; the second argument is
      \<^verbatim>\<open>self.max_concurrent_hosts\<close>.\<close>
  "process_kape_batch_for_cid E max_concurrent_hosts c hosts upload_to_s3 h =
     (case perform E (Call ''_get_or_create_rtr_client'' [c]) h of
        (RRaise, h1) \<Rightarrow> (None, h1)
      | (r1, h1) \<Rightarrow>
          let first_target = (case hosts of [] \<Rightarrow> ''!BasicCollection''
                              | (host, kape_target, host_info) # rest \<Rightarrow> kape_target) in
          (case perform E (Call ''_upload_kape_cloud_files_once'' [c, first_target]) h1 of
             (RRaise, h2) \<Rightarrow> (None, h2)
           | (RBool True, h2) \<Rightarrow>
               let device_ids = map (\<lambda>(host, kape_target, host_info). aid host_info) hosts in
               (case perform E (Call ''rtr_client.batch_init_sessions'' device_ids) h2 of
                  (RRaise, h3) \<Rightarrow> (None, h3)
                | (RBool True, h3) \<Rightarrow>
                    (case perform E (Call ''batch_id'' device_ids) h3 of
                       (RRaise, h4) \<Rightarrow> (None, h4)
                     | (RStr batch_id, h4) \<Rightarrow>
                         if batch_id = [] then (Some (all_failed hosts), h4)
                         else
                           let batch_size = min 10 max_concurrent_hosts in
                           if batch_size = 0 then (None, h4)
                           else if batch_size < 0 then (Some Map.empty, h4)
                           else kape_batches E (nat batch_size) batch_id hosts upload_to_s3
                                  Map.empty h4
                     | (r4, h4) \<Rightarrow> (Some (all_failed hosts), h4))
                | (r3, h3) \<Rightarrow> (Some (all_failed hosts), h3))
           | (r2, h2) \<Rightarrow> (Some (all_failed hosts), h2)))"

fun kape_process_groups ::
  "env \<Rightarrow> int \<Rightarrow> (string \<times> cid_hosts) list \<Rightarrow> bool \<Rightarrow> (string \<rightharpoonup> bool) \<Rightarrow> history
     \<Rightarrow> (string \<rightharpoonup> bool) \<times> history" where
  \<comment> \<open>\<^verbatim>\<open>run_kape_batch\<close>, lines 201-217.\<close>
  "kape_process_groups E max_concurrent_hosts [] upload_to_s3 results h = (results, h)"
| "kape_process_groups E max_concurrent_hosts ((c, cid_hosts) # groups) upload_to_s3 results h =
     (case process_kape_batch_for_cid E max_concurrent_hosts c cid_hosts upload_to_s3 h of
        (Some cid_results, h1) \<Rightarrow>
          kape_process_groups E max_concurrent_hosts groups upload_to_s3 (results ++ cid_results) h1
      | (None, h1) \<Rightarrow>
          kape_process_groups E max_concurrent_hosts groups upload_to_s3
            (results ++ all_failed cid_hosts) h1)"

definition run_kape_batch ::
  "env \<Rightarrow> bool \<Rightarrow> int \<Rightarrow> (string \<times> string) list \<Rightarrow> bool \<Rightarrow> history
     \<Rightarrow> (string \<rightharpoonup> bool) option \<times> history" where
  \<comment> \<open>\<^verbatim>\<open>run_kape_batch\<close>, lines 148-227; the second and third arguments are
      \<^verbatim>\<open>self.enable_caching\<close> and \<^verbatim>\<open>self.max_concurrent_hosts\<close>.  A pool of
      \<^verbatim>\<open>min(len(hosts_by_cid), 5)\<close> = 0 workers raises \<^verbatim>\<open>ValueError\<close>.\<close>
  "run_kape_batch E enable_caching max_concurrent_hosts targets upload_to_s3 h =
     (case (if enable_caching then
              (case get_host_details_batch E (map fst targets) Map.empty h of
                 (host_details, h1) \<Rightarrow> (kape_group_cached host_details targets [], h1))
            else kape_group_lookup E targets [] h) of
        (hosts_by_cid, h1) \<Rightarrow>
          if min (int (length hosts_by_cid)) 5 \<le> 0 then (None, h1)
          else
            (case kape_process_groups E max_concurrent_hosts hosts_by_cid upload_to_s3 Map.empty h1 of
               (results, h2) \<Rightarrow> (Some results, h2)))"

fun uac_group_cached ::
  "(string \<rightharpoonup> HostInfo) \<Rightarrow> (string \<times> string) list \<Rightarrow> (string \<times> cid_hosts) list
     \<Rightarrow> (string \<times> cid_hosts) list option" where
  \<comment> \<open>\<^verbatim>\<open>run_uac_batch\<close>, lines 636-651.\<close>
  "uac_group_cached host_details [] hosts_by_cid = Some hosts_by_cid"
| "uac_group_cached host_details ((host, uac_profile) # targets) hosts_by_cid =
     (case host_details host of
        Some host_info \<Rightarrow>
          (case Platform_of (py_lower (platform host_info)) of
             None \<Rightarrow> None
           | Some p \<Rightarrow>
               if p = WINDOWS then uac_group_cached host_details targets hosts_by_cid
               else uac_group_cached host_details targets
                      (add_host (cid host_info) (host, uac_profile, host_info) hosts_by_cid))
      | None \<Rightarrow> uac_group_cached host_details targets hosts_by_cid)"

fun uac_group_lookup ::
  "env \<Rightarrow> (string \<times> string) list \<Rightarrow> (string \<times> cid_hosts) list \<Rightarrow> history
     \<Rightarrow> (string \<times> cid_hosts) list option \<times> history" where
  \<comment> \<open>\<^verbatim>\<open>run_uac_batch\<close>, lines 654-669.\<close>
  "uac_group_lookup E [] hosts_by_cid h = (Some hosts_by_cid, h)"
| "uac_group_lookup E ((host, uac_profile) # targets) hosts_by_cid h =
     (case get_host_by_hostname E host h of
        (Some host_info, h1) \<Rightarrow>
          (case Platform_of (py_lower (platform host_info)) of
             None \<Rightarrow> (None, h1)
           | Some p \<Rightarrow>
               if p = WINDOWS then uac_group_lookup E targets hosts_by_cid h1
               else uac_group_lookup E targets
                      (add_host (cid host_info) (host, uac_profile, host_info) hosts_by_cid) h1)
      | (None, h1) \<Rightarrow> uac_group_lookup E targets hosts_by_cid h1)"

fun run_uac_on_hosts ::
  "env \<Rightarrow> cid_hosts \<Rightarrow> bool \<Rightarrow> (string \<rightharpoonup> bool) \<Rightarrow> history \<Rightarrow> (string \<rightharpoonup> bool) \<times> history" where
  \<comment> \<open>\<^verbatim>\<open>_process_uac_batch_for_cid\<close>, lines 716-732.\<close>
  "run_uac_on_hosts E [] upload_to_s3 results h = (results, h)"
| "run_uac_on_hosts E ((host, uac_profile, host_info) # hosts) upload_to_s3 results h =
     (case perform E (Call ''_process_single_uac'' [host, uac_profile, aid host_info, py_bool upload_to_s3]) h of
        (RBool b, h1) \<Rightarrow> run_uac_on_hosts E hosts upload_to_s3 (results(host \<mapsto> b)) h1
      | (r, h1) \<Rightarrow> run_uac_on_hosts E hosts upload_to_s3 (results(host \<mapsto> False)) h1)"

definition process_uac_batch_for_cid ::
  "env \<Rightarrow> string \<Rightarrow> cid_hosts \<Rightarrow> bool \<Rightarrow> history \<Rightarrow> (string \<rightharpoonup> bool) option \<times> history" where
  \<comment> \<open>\<^verbatim>\<open>_process_uac_batch_for_cid\<close>, lines 706-734.\<close>
  "process_uac_batch_for_cid E c hosts upload_to_s3 h =
     (case perform E (Call ''_get_or_create_rtr_client'' [c]) h of
        (RRaise, h1) \<Rightarrow> (None, h1)
      | (r, h1) \<Rightarrow>
          (case run_uac_on_hosts E hosts upload_to_s3 Map.empty h1 of
             (results, h2) \<Rightarrow> (Some results, h2)))"

fun uac_process_groups ::
  "env \<Rightarrow> (string \<times> cid_hosts) list \<Rightarrow> bool \<Rightarrow> (string \<rightharpoonup> bool) \<Rightarrow> history
     \<Rightarrow> (string \<rightharpoonup> bool) \<times> history" where
  \<comment> \<open>\<^verbatim>\<open>run_uac_batch\<close>, lines 676-689.\<close>
  "uac_process_groups E [] upload_to_s3 results h = (results, h)"
| "uac_process_groups E ((c, hosts) # groups) upload_to_s3 results h =
     (case process_uac_batch_for_cid E c hosts upload_to_s3 h of
        (Some cid_results, h1) \<Rightarrow>
          uac_process_groups E groups upload_to_s3 (results ++ cid_results) h1
      | (None, h1) \<Rightarrow> uac_process_groups E groups upload_to_s3 results h1)"

fun add_failed_hosts :: "(string \<times> string) list \<Rightarrow> (string \<rightharpoonup> bool) \<Rightarrow> (string \<rightharpoonup> bool)" where
  \<comment> \<open>\<^verbatim>\<open>run_uac_batch\<close>, lines 691-694.\<close>
  "add_failed_hosts [] results = results"
| "add_failed_hosts ((host, uac_profile) # targets) results =
     (if results host = None then add_failed_hosts targets (results(host \<mapsto> False))
      else add_failed_hosts targets results)"

definition run_uac_batch ::
  "env \<Rightarrow> bool \<Rightarrow> int \<Rightarrow> (string \<times> string) list \<Rightarrow> bool \<Rightarrow> history
     \<Rightarrow> (string \<rightharpoonup> bool) option \<times> history" where
  \<comment> \<open>\<^verbatim>\<open>run_uac_batch\<close>, lines 612-704; a pool of \<^verbatim>\<open>self.max_concurrent_hosts\<close>
      \<open>\<le> 0\<close> workers raises \<^verbatim>\<open>ValueError\<close>.\<close>
  "run_uac_batch E enable_caching max_concurrent_hosts targets upload_to_s3 h =
     (case (if enable_caching then
              (case get_host_details_batch E (map fst targets) Map.empty h of
                 (host_details, h1) \<Rightarrow> (uac_group_cached host_details targets [], h1))
            else uac_group_lookup E targets [] h) of
        (None, h1) \<Rightarrow> (None, h1)
      | (Some hosts_by_cid, h1) \<Rightarrow>
          if max_concurrent_hosts \<le> 0 then (None, h1)
          else
            (case uac_process_groups E hosts_by_cid upload_to_s3 Map.empty h1 of
               (results, h2) \<Rightarrow> (Some (add_failed_hosts targets results), h2)))"

definition host_linux :: "string \<Rightarrow> HostInfo" where
  "host_linux host = \<lparr> hostname = host, aid = ''aid-'' @ host, cid = ''cid-1'', os_name = ''Linux'',
                      os_version = ''6.1'', cpu_name = ''x86_64'', platform = ''linux'' \<rparr>"

definition env_ghost :: env where
  \<comment> \<open>Every hostname resolves except \<^verbatim>\<open>ghost\<close>, and every collection succeeds.\<close>
  "env_ghost h c =
     (case c of
        Call name args \<Rightarrow>
          if name = ''host_manager.get_host_by_hostname'' then
            (if args = [''ghost''] then RNone else RHost (host_linux (hd args)))
          else if name = ''batch_id'' then RStr ''batch-1''
          else if name = ''_get_or_create_rtr_client'' then RNone
          else RBool True
      | c' \<Rightarrow> RNone)"

section \<open>Properties\<close>

subsection \<open>Upload verification by HEAD\<close>

text \<open>
  C2, as amended.  With an expected size supplied, \<open>verify_s3_upload\<close> returns success exactly
  when the client could be built, \<open>head_object\<close> found the object, and the object's size is
  equal to the expected size: there is no tolerance.
\<close>

theorem verify_s3_upload_exact_size:
  "fst (verify_s3_upload E bucket object_key (Some expected) h) =
     (fst (s3_client E h) \<and>
      fst (head_object E bucket object_key (snd (s3_client E h))) = HeadFound expected)"
  by (auto simp: verify_s3_upload_def split: prod.splits bool.splits head_result.splits)

text \<open>
  C2 as stated fails: an object of 1000001 bytes is within max(1 KiB, 1 %) of the expected
  1000000 bytes, and the verification still reports failure.
\<close>

theorem verify_s3_upload_tolerance_counterexample:
  "fst (head_object env_near_size ''bucket'' ''key'' (snd (s3_client env_near_size [])))
     = HeadFound 1000001
   \<and> spec_size_matches 1000000 1000001
   \<and> \<not> fst (verify_s3_upload env_near_size ''bucket'' ''key'' (Some 1000000) [])"
  by (simp add: verify_s3_upload_def s3_client_def head_object_def perform_def
      spec_size_matches_def env_near_size_def Let_def)

subsection \<open>Return code of a completed command\<close>




subsection \<open>The extension of a downloaded file\<close>




subsection \<open>Paths\<close>

lemma split_on_nonempty [simp]: "split_on c s \<noteq> []"
  by (induction s) (auto split: list.splits)




















subsection \<open>Loops\<close>






subsection \<open>Pull download: the get command and the SHA retrieval\<close>

lemma perform_history: "perform E c h = (r, h') \<Longrightarrow> h' = (c, r) # h"
  by (auto simp: perform_def Let_def)







lemma count_gets_Cons [simp]:
  "count_gets ((c, r) # h) = (if is_get (c, r) then Suc (count_gets h) else count_gets h)"
  by (simp add: count_gets_def)


lemma sleep_gets [simp]: "count_gets (sleep E d h) = count_gets h"
  by (simp add: sleep_def perform_def Let_def)

lemma pulse_session_gets [simp]: "count_gets (snd (pulse_session E session h)) = count_gets h"
  by (simp add: pulse_session_def perform_def Let_def split: response.splits)


lemma pulse_session_gets' : "pulse_session E s h = (b, h') \<Longrightarrow> count_gets h' = count_gets h"
  using pulse_session_gets [of E s h] by simp















lemma count_pulses_Cons [simp]:
  "count_pulses ((c, r) # h) = (if is_pulse (c, r) then Suc (count_pulses h) else count_pulses h)"
  by (simp add: count_pulses_def)


lemma sleep_pulses [simp]: "count_pulses (sleep E d h) = count_pulses h"
  by (simp add: sleep_def perform_def Let_def)









subsection \<open>Batch runs and unresolved hostnames\<close>

lemmas batch_eval =
  run_kape_batch_def run_uac_batch_def process_kape_batch_for_cid_def process_uac_batch_for_cid_def
  get_host_by_hostname_def perform_def all_failed_def host_linux_def Platform_of_def py_lower_def
  kape_batches.simps env_ghost_def py_bool_def Let_def

text \<open>
  C8 on two hosts of which one, \<^verbatim>\<open>ghost\<close>, does not resolve.  \<open>run_kape_batch\<close> returns a
  dictionary without an entry for \<^verbatim>\<open>ghost\<close>; \<open>run_uac_batch\<close>, on the same hosts, records
  \<^verbatim>\<open>ghost\<close> as failed.  In both the host that resolves is processed.
\<close>

theorem run_kape_batch_drops_unresolved:
  "(\<exists>results h'. run_kape_batch env_ghost True 20
        [(''web-01'', ''!SANS_Triage''), (''ghost'', ''!SANS_Triage'')] True [] = (Some results, h')
      \<and> results ''web-01'' = Some True \<and> results ''ghost'' = None)
   \<and> (\<exists>results h'. run_uac_batch env_ghost True 20
        [(''web-01'', ''ir_triage''), (''ghost'', ''ir_triage'')] True [] = (Some results, h')
      \<and> results ''web-01'' = Some True \<and> results ''ghost'' = Some False)"
  by (simp add: batch_eval)

text \<open>
  \<open>run_uac_batch\<close> ends by adding every hostname that has no entry yet, so its dictionary
  has an entry for every target; \<open>run_kape_batch\<close> has no such step.
\<close>

lemma add_failed_hosts_Cons_new:
  "results hn = None
   \<Longrightarrow> add_failed_hosts ((hn, p) # targets) results = add_failed_hosts targets (results(hn \<mapsto> False))"
  by simp

lemma add_failed_hosts_Cons_old:
  "results hn \<noteq> None
   \<Longrightarrow> add_failed_hosts ((hn, p) # targets) results = add_failed_hosts targets results"
  by auto

lemma add_failed_hosts_keeps:
  "results host = Some b \<Longrightarrow> add_failed_hosts targets results host = Some b"
proof (induction targets arbitrary: results)
  case Nil
  then show ?case by simp
next
  case (Cons t targets)
  obtain hn p where t: "t = (hn, p)" by (cases t)
  show ?case
  proof (cases "results hn = None")
    case True
    with Cons.prems have "host \<noteq> hn" by auto
    have "add_failed_hosts targets (results(hn \<mapsto> False)) host = Some b"
    proof (rule Cons.IH)
      show "(results(hn \<mapsto> False)) host = Some b" using \<open>host \<noteq> hn\<close> Cons.prems by simp
    qed
    then show ?thesis unfolding t add_failed_hosts_Cons_new [of results hn p targets, OF True] .
  next
    case False
    have "add_failed_hosts targets results host = Some b" using Cons.prems by (rule Cons.IH)
    then show ?thesis unfolding t add_failed_hosts_Cons_old [of results hn p targets, OF False] .
  qed
qed

lemma add_failed_hosts_records:
  "(host, p) \<in> set targets \<Longrightarrow> add_failed_hosts targets results host \<noteq> None"
proof (induction targets arbitrary: results)
  case Nil
  then show ?case by simp
next
  case (Cons t targets)
  obtain hn q where t: "t = (hn, q)" by (cases t)
  show ?case
  proof (cases "results hn = None")
    case True
    have "add_failed_hosts targets (results(hn \<mapsto> False)) host \<noteq> None"
    proof (cases "hn = host")
      case True
      have "add_failed_hosts targets (results(hn \<mapsto> False)) host = Some False"
      proof (rule add_failed_hosts_keeps)
        show "(results(hn \<mapsto> False)) host = Some False" using True by simp
      qed
      then show ?thesis by simp
    next
      case False
      with Cons.prems t have "(host, p) \<in> set targets" by auto
      then show ?thesis by (rule Cons.IH)
    qed
    then show ?thesis unfolding t add_failed_hosts_Cons_new [of results hn q targets, OF True] .
  next
    case False
    have "add_failed_hosts targets results host \<noteq> None"
    proof (cases "hn = host")
      case True
      with False obtain b where "results host = Some b" by auto
      then have "add_failed_hosts targets results host = Some b" by (rule add_failed_hosts_keeps)
      then show ?thesis by simp
    next
      case False
      with Cons.prems t have "(host, p) \<in> set targets" by auto
      then show ?thesis by (rule Cons.IH)
    qed
    then show ?thesis unfolding t add_failed_hosts_Cons_old [of results hn q targets, OF False] .
  qed
qed

lemma add_failed_hosts_missing:
  "(host, p) \<in> set targets \<Longrightarrow> results host = None
   \<Longrightarrow> add_failed_hosts targets results host = Some False"
proof (induction targets arbitrary: results)
  case Nil
  then show ?case by simp
next
  case (Cons t targets)
  obtain hn q where t: "t = (hn, q)" by (cases t)
  show ?case
  proof (cases "results hn = None")
    case True
    have "add_failed_hosts targets (results(hn \<mapsto> False)) host = Some False"
    proof (cases "hn = host")
      case True
      show ?thesis
      proof (rule add_failed_hosts_keeps)
        show "(results(hn \<mapsto> False)) host = Some False" using True by simp
      qed
    next
      case False
      with Cons.prems t have m: "(host, p) \<in> set targets" by auto
      show ?thesis
      proof (rule Cons.IH [OF m])
        show "(results(hn \<mapsto> False)) host = None" using False Cons.prems(2) by simp
      qed
    qed
    then show ?thesis unfolding t add_failed_hosts_Cons_new [of results hn q targets, OF True] .
  next
    case False
    with Cons.prems(2) have "hn \<noteq> host" by auto
    with Cons.prems t have m: "(host, p) \<in> set targets" by auto
    have "add_failed_hosts targets results host = Some False"
      using m Cons.prems(2) by (rule Cons.IH)
    then show ?thesis unfolding t add_failed_hosts_Cons_old [of results hn q targets, OF False] .
  qed
qed

lemma run_uac_batch_records_every_host:
  assumes "run_uac_batch E enable_caching max_concurrent_hosts targets upload_to_s3 h
             = (Some results, h')"
    and "(host, p) \<in> set targets"
  shows "results host \<noteq> None"
proof -
  from assms(1) obtain r where "results = add_failed_hosts targets r"
    by (auto simp: run_uac_batch_def split: prod.splits option.splits if_splits)
  with add_failed_hosts_records [OF assms(2)] show ?thesis by simp
qed

end
